theory Spec2Isabelle
  imports Complex_Main "HOL-Library.Multiset"
begin

section \<open>The price-history import script\<close>

text \<open>
  A shallow embedding of \<^verbatim>\<open>scripts/import_price_history.py\<close>. The script is a
  straight-line program over three pieces of outside world: the ranking provider
  (one HTTP request), the candle provider (one HTTP request per symbol and timeframe)
  and a PostgreSQL connection used inside one transaction. Each of them is a field
  of the environment; the program state is passed explicitly and every exception the
  script can raise is a branch of the model.
\<close>

subsection \<open>Decoded JSON values and the Python operations applied to them\<close>

datatype json =
    JNull
  | JBool bool
  | JInt int
  | JFloat real
  | JStr string
  | JArr "json list"
  | JObj "(string \<times> json) list"

datatype py_error =
    ConnectionError
  | JSONDecodeError
  | TypeError
  | KeyError
  | IndexError
  | AttributeError
  | ValueError
  | OverflowError
  | DatabaseError

text \<open>
  An HTTP exchange made with \<^verbatim>\<open>requests.get\<close>: either the call itself raises, or
  a response comes back with a status code and a body; the body is \<open>None\<close> when it is
  not JSON, so that \<^verbatim>\<open>.json()\<close> raises.
\<close>

datatype http = ConnectionFailed | Response nat "json option"

text \<open>\<^verbatim>\<open>for x in v\<close>: a list yields its elements, a dict its keys, a string its characters.\<close>

fun iter :: "json \<Rightarrow> py_error + json list" where
  "iter (JArr xs) = Inr xs"
| "iter (JObj kvs) = Inr (map (\<lambda>kv. JStr (fst kv)) kvs)"
| "iter (JStr s) = Inr (map (\<lambda>c. JStr [c]) s)"
| "iter _ = Inl TypeError"

text \<open>\<^verbatim>\<open>v[k]\<close> with a string key, as in \<^verbatim>\<open>coin['symbol']\<close>.\<close>

fun getitem_str :: "json \<Rightarrow> string \<Rightarrow> py_error + json" where
  "getitem_str (JObj kvs) k = (case map_of kvs k of None \<Rightarrow> Inl KeyError | Some v \<Rightarrow> Inr v)"
| "getitem_str _ k = Inl TypeError"

text \<open>\<^verbatim>\<open>v[i]\<close> with a non-negative integer index, as in \<^verbatim>\<open>candle[0]\<close>.\<close>

fun getitem_int :: "json \<Rightarrow> nat \<Rightarrow> py_error + json" where
  "getitem_int (JArr xs) i = (if i < length xs then Inr (xs ! i) else Inl IndexError)"
| "getitem_int (JStr s) i = (if i < length s then Inr (JStr [s ! i]) else Inl IndexError)"
| "getitem_int (JObj kvs) i = Inl KeyError"
| "getitem_int _ i = Inl TypeError"

text \<open>\<^verbatim>\<open>v.get(k, d)\<close>; only a dict has the method.\<close>

fun dict_get :: "json \<Rightarrow> string \<Rightarrow> json \<Rightarrow> py_error + json" where
  "dict_get (JObj kvs) k d = (case map_of kvs k of None \<Rightarrow> Inr d | Some v \<Rightarrow> Inr v)"
| "dict_get _ k d = Inl AttributeError"

text \<open>
  \<^verbatim>\<open>v.upper()\<close>; only a string has the method. What the method does to a string is
  library code: the function \<open>up\<close> stands for it and comes from the environment.
\<close>

fun upper :: "(string \<Rightarrow> string) \<Rightarrow> json \<Rightarrow> py_error + string" where
  "upper up (JStr s) = Inr (up s)"
| "upper up _ = Inl AttributeError"

subsection \<open>The two tables\<close>

record asset_row =
  name :: json
  market_type :: string
  image_url :: json
  active :: bool

record ('f, 't) candle_row =
  symbol :: string
  timeframe :: string
  open_price :: 'f
  high_price :: 'f
  low_price :: 'f
  close_price :: 'f
  volume :: 'f
  timestamp :: 't
  created_at :: 't

text \<open>
  Table \<^verbatim>\<open>cryptocurrencies\<close> is keyed by \<open>symbol\<close>, the conflict target that the
  upsert statement names. Table \<^verbatim>\<open>price_history\<close> is the sequence of its rows in
  insertion order.
\<close>

record ('f, 't) db =
  cryptocurrencies :: "string \<rightharpoonup> asset_row"
  price_history :: "('f, 't) candle_row list"

text \<open>
  Modelled from the spec: the unique constraint of table \<^verbatim>\<open>price_history\<close>, which
  is declared by the schema migrations and not by the script. The spec gives the tuple
  (\<open>symbol\<close>, \<open>timeframe\<close>, \<open>timestamp\<close>) as unique.
\<close>

definition candle_key :: "('f, 't) candle_row \<Rightarrow> string \<times> string \<times> 't" where
  "candle_key r = (symbol r, timeframe r, timestamp r)"

subsection \<open>Environment and program state\<close>

text \<open>
  \<open>coingecko\<close> is the answer to the ranking request. \<open>binance n symb interval limit\<close>
  is the answer to the candle request that is the \<open>n\<close>-th of the run. \<open>open_time_of v\<close>
  stands for \<^verbatim>\<open>datetime.utcfromtimestamp(v / 1000)\<close> and \<open>float_of v\<close> for
  \<^verbatim>\<open>float(v)\<close>, and \<open>str_upper\<close> for \<^verbatim>\<open>str.upper\<close>, all library code.
  \<open>refuses_asset\<close> and \<open>refuses_candle\<close> say which statement parameters make
  \<^verbatim>\<open>cursor.execute\<close> raise for a reason other than a uniqueness conflict, and with
  which exception: the driver refuses some values itself, and the tables refuse others
  (column types, \<^verbatim>\<open>NOT NULL\<close>, checks) by a schema the script does not declare. A
  row of the model holds the parameters as they were passed; the cast to the column
  type that the database applies to them is not represented.
\<close>

record ('f, 't) env =
  coingecko :: http
  binance :: "nat \<Rightarrow> string \<Rightarrow> string \<Rightarrow> nat \<Rightarrow> http"
  open_time_of :: "json \<Rightarrow> py_error + 't"
  float_of :: "json \<Rightarrow> py_error + 'f"
  str_upper :: "string \<Rightarrow> string"
  refuses_asset :: "string \<times> json \<times> string \<times> json \<Rightarrow> py_error option"
  refuses_candle :: "('f, 't) candle_row \<Rightarrow> py_error option"

datatype line = Importando string string | Concluida

text \<open>
  \<open>committed\<close> is what the database holds durably, \<open>pending\<close> what the open
  transaction of the script sees. \<open>symbols\<close> is the script's global list, \<open>requests\<close>
  the candle requests sent so far, \<open>stdout\<close> the lines printed so far.
\<close>

record ('f, 't) st =
  committed :: "('f, 't) db"
  pending :: "('f, 't) db"
  symbols :: "string list"
  requests :: "(string \<times> string \<times> nat) list"
  stdout :: "line list"

text \<open>A step either raises, leaving the state it raised in, or returns the new state.\<close>

type_synonym ('f, 't) outcome = "(py_error \<times> ('f, 't) st) + ('f, 't) st"

definition timeframes :: "(string \<times> string) list" where
  "timeframes =
     [(''1m'', ''1m''), (''5m'', ''5m''), (''15m'', ''15m''),
      (''1h'', ''1h''), (''4h'', ''4h''), (''1d'', ''1d'')]"

subsection \<open>Symbol derivation (lines 28 to 31)\<close>

definition binance_symbol :: "('f, 't) env \<Rightarrow> json \<Rightarrow> py_error + string" where
  "binance_symbol E coin =
     (case getitem_str coin ''symbol'' of
        Inl e \<Rightarrow> Inl e
      | Inr v \<Rightarrow>
          (case upper (str_upper E) v of Inl e \<Rightarrow> Inl e | Inr u \<Rightarrow> Inr (u @ ''USDT'')))"

fun collect_symbols :: "('f, 't) env \<Rightarrow> json list \<Rightarrow> ('f, 't) st \<Rightarrow> ('f, 't) outcome" where
  "collect_symbols E [] s = Inr s"
| "collect_symbols E (coin # rest) s =
     (case binance_symbol E coin of
        Inl e \<Rightarrow> Inl (e, s)
      | Inr b \<Rightarrow> collect_symbols E rest (s\<lparr>symbols := symbols s @ [b]\<rparr>))"

subsection \<open>The candle request (lines 35 to 44)\<close>

definition fetch_binance_candles ::
  "('f, 't) env \<Rightarrow> string \<Rightarrow> string \<Rightarrow> nat \<Rightarrow> ('f, 't) st
     \<Rightarrow> (py_error \<times> ('f, 't) st) + (json \<times> ('f, 't) st)" where
  "fetch_binance_candles E symb interval limit s =
     (let s' = s\<lparr>requests := requests s @ [(symb, interval, limit)]\<rparr> in
      case binance E (length (requests s)) symb interval limit of
        ConnectionFailed \<Rightarrow> Inl (ConnectionError, s')
      | Response code body \<Rightarrow>
          if code = 200
          then (case body of None \<Rightarrow> Inl (JSONDecodeError, s') | Some j \<Rightarrow> Inr (j, s'))
          else Inr (JArr [], s'))"

subsection \<open>Reconciling the registry (lines 47 to 58)\<close>

definition upsert_row :: "json \<Rightarrow> string \<Rightarrow> json \<Rightarrow> asset_row option \<Rightarrow> asset_row" where
  "upsert_row nm mt img old =
     (case old of
        None \<Rightarrow> \<lparr>name = nm, market_type = mt, image_url = img, active = True\<rparr>
      | Some r \<Rightarrow> r\<lparr>name := nm, image_url := img, active := True\<rparr>)"

definition execute_upsert ::
  "('f, 't) env \<Rightarrow> string \<times> json \<times> string \<times> json \<Rightarrow> ('f, 't) st \<Rightarrow> ('f, 't) outcome" where
  "execute_upsert E p s =
     (case p of (symb, nm, mt, img) \<Rightarrow>
        (case refuses_asset E p of
           Some e \<Rightarrow> Inl (e, s)
         | None \<Rightarrow>
             Inr (s\<lparr>pending := (pending s)\<lparr>cryptocurrencies :=
               (cryptocurrencies (pending s))
                 (symb \<mapsto> upsert_row nm mt img (cryptocurrencies (pending s) symb))\<rparr>\<rparr>)))"

definition asset_params ::
  "('f, 't) env \<Rightarrow> json \<Rightarrow> py_error + (string \<times> json \<times> string \<times> json)" where
  "asset_params E coin =
     (case binance_symbol E coin of
        Inl e \<Rightarrow> Inl e
      | Inr b \<Rightarrow>
          (case getitem_str coin ''name'' of
             Inl e \<Rightarrow> Inl e
           | Inr nm \<Rightarrow>
               (case dict_get coin ''image'' (JStr '''') of
                  Inl e \<Rightarrow> Inl e
                | Inr img \<Rightarrow> Inr (b, nm, ''Spot'', img))))"

fun reconcile :: "('f, 't) env \<Rightarrow> json list \<Rightarrow> ('f, 't) st \<Rightarrow> ('f, 't) outcome" where
  "reconcile E [] s = Inr s"
| "reconcile E (coin # rest) s =
     (case asset_params E coin of
        Inl e \<Rightarrow> Inl (e, s)
      | Inr p \<Rightarrow>
          (case execute_upsert E p s of
             Inl x \<Rightarrow> Inl x
           | Inr s' \<Rightarrow> reconcile E rest (s'\<lparr>symbols := symbols s' @ [fst p]\<rparr>)))"

subsection \<open>Importing candles (lines 61 to 80)\<close>

text \<open>Sequencing of two computations that may raise: the second runs if the first returns.\<close>

definition and_then :: "'e + 'a \<Rightarrow> ('a \<Rightarrow> 'e + 'b) \<Rightarrow> 'e + 'b" where
  "and_then m f = (case m of Inl e \<Rightarrow> Inl e | Inr x \<Rightarrow> f x)"

text \<open>\<^verbatim>\<open>float(candle[i])\<close>.\<close>

definition float_field :: "('f, 't) env \<Rightarrow> json \<Rightarrow> nat \<Rightarrow> py_error + 'f" where
  "float_field E candle i = and_then (getitem_int candle i) (float_of E)"

definition candle_values ::
  "('f, 't) env \<Rightarrow> string \<Rightarrow> string \<Rightarrow> json \<Rightarrow> py_error + ('f, 't) candle_row" where
  "candle_values E symb tf_name candle =
     and_then (and_then (getitem_int candle 0) (open_time_of E)) (\<lambda>open_time.
     and_then (float_field E candle 1) (\<lambda>op.
     and_then (float_field E candle 2) (\<lambda>hp.
     and_then (float_field E candle 3) (\<lambda>lp.
     and_then (float_field E candle 4) (\<lambda>cp.
     and_then (float_field E candle 5) (\<lambda>vol.
       Inr \<lparr>symbol = symb, timeframe = tf_name, open_price = op, high_price = hp,
            low_price = lp, close_price = cp, volume = vol,
            timestamp = open_time, created_at = open_time\<rparr>))))))"

text \<open>\<^verbatim>\<open>INSERT ... ON CONFLICT DO NOTHING\<close> on a sequence of rows.\<close>

definition insert_or_ignore ::
  "('f, 't) candle_row \<Rightarrow> ('f, 't) candle_row list \<Rightarrow> ('f, 't) candle_row list" where
  "insert_or_ignore r rows =
     (if candle_key r \<in> set (map candle_key rows) then rows else rows @ [r])"

definition execute_insert ::
  "('f, 't) env \<Rightarrow> ('f, 't) candle_row \<Rightarrow> ('f, 't) st \<Rightarrow> ('f, 't) outcome" where
  "execute_insert E r s =
     (case refuses_candle E r of
        Some e \<Rightarrow> Inl (e, s)
      | None \<Rightarrow>
          Inr (s\<lparr>pending := (pending s)\<lparr>price_history :=
            insert_or_ignore r (price_history (pending s))\<rparr>\<rparr>))"

fun import_candles ::
  "('f, 't) env \<Rightarrow> string \<Rightarrow> string \<Rightarrow> json list \<Rightarrow> ('f, 't) st \<Rightarrow> ('f, 't) outcome" where
  "import_candles E symb tf_name [] s = Inr s"
| "import_candles E symb tf_name (candle # rest) s =
     (case candle_values E symb tf_name candle of
        Inl e \<Rightarrow> Inl (e, s)
      | Inr r \<Rightarrow>
          (case execute_insert E r s of
             Inl x \<Rightarrow> Inl x
           | Inr s' \<Rightarrow> import_candles E symb tf_name rest s'))"

text \<open>The body of the inner loop: one (symbol, timeframe) pair.\<close>

definition import_history ::
  "('f, 't) env \<Rightarrow> string \<Rightarrow> string \<times> string \<Rightarrow> ('f, 't) st \<Rightarrow> ('f, 't) outcome" where
  "import_history E symb tf s =
     (case fetch_binance_candles E symb (snd tf) 200
             (s\<lparr>stdout := stdout s @ [Importando symb (fst tf)]\<rparr>) of
        Inl x \<Rightarrow> Inl x
      | Inr (candles, s2) \<Rightarrow>
          (case iter candles of
             Inl e \<Rightarrow> Inl (e, s2)
           | Inr cs \<Rightarrow> import_candles E symb (fst tf) cs s2))"

fun import_timeframes ::
  "('f, 't) env \<Rightarrow> string \<Rightarrow> (string \<times> string) list \<Rightarrow> ('f, 't) st \<Rightarrow> ('f, 't) outcome" where
  "import_timeframes E symb [] s = Inr s"
| "import_timeframes E symb (tf # tfs) s =
     (case import_history E symb tf s of
        Inl x \<Rightarrow> Inl x
      | Inr s' \<Rightarrow> import_timeframes E symb tfs s')"

fun import_symbols :: "('f, 't) env \<Rightarrow> string list \<Rightarrow> ('f, 't) st \<Rightarrow> ('f, 't) outcome" where
  "import_symbols E [] s = Inr s"
| "import_symbols E (symb # syms) s =
     (case import_timeframes E symb timeframes s of
        Inl x \<Rightarrow> Inl x
      | Inr s' \<Rightarrow> import_symbols E syms s')"

subsection \<open>The whole script\<close>

definition start :: "('f, 't) db \<Rightarrow> ('f, 't) st" where
  "start d = \<lparr>committed = d, pending = d, symbols = [], requests = [], stdout = []\<rparr>"

definition commit :: "('f, 't) st \<Rightarrow> ('f, 't) st" where
  "commit s = s\<lparr>committed := pending s\<rparr>"

definition main :: "('f, 't) env \<Rightarrow> ('f, 't) db \<Rightarrow> ('f, 't) outcome" where
  "main E d =
     (case coingecko E of
        ConnectionFailed \<Rightarrow> Inl (ConnectionError, start d)
      | Response code body \<Rightarrow>
          (case body of
             None \<Rightarrow> Inl (JSONDecodeError, start d)
           | Some coins \<Rightarrow>
               (case iter coins of
                  Inl e \<Rightarrow> Inl (e, start d)
                | Inr cs \<Rightarrow>
                    (case collect_symbols E cs (start d) of
                       Inl x \<Rightarrow> Inl x
                     | Inr s1 \<Rightarrow>
                         (case reconcile E cs s1 of
                            Inl x \<Rightarrow> Inl x
                          | Inr s2 \<Rightarrow>
                              (case import_symbols E (symbols s2) s2 of
                                 Inl x \<Rightarrow> Inl x
                               | Inr s3 \<Rightarrow>
                                   Inr ((commit s3)\<lparr>stdout := stdout s3 @ [Concluida]\<rparr>)))))))"

definition final :: "('f, 't) outcome \<Rightarrow> ('f, 't) st" where
  "final r = (case r of Inl (e, s) \<Rightarrow> s | Inr s \<Rightarrow> s)"

text \<open>What the database holds once the process has ended.\<close>

definition stored :: "('f, 't) outcome \<Rightarrow> ('f, 't) db" where
  "stored r = committed (final r)"

subsection \<open>Notions used to state and prove the properties\<close>

text \<open>
  The effect of one upsert statement on the registry, the parameters a coin gives rise
  to when they can be computed, and the effect of one upsert on the row of its symbol.
\<close>

definition upsert1 ::
  "string \<times> json \<times> string \<times> json \<Rightarrow> (string \<rightharpoonup> asset_row) \<Rightarrow> (string \<rightharpoonup> asset_row)" where
  "upsert1 p m = m(fst p \<mapsto> upsert_row (fst (snd p)) (fst (snd (snd p))) (snd (snd (snd p))) (m (fst p)))"

definition the_params :: "('f, 't) env \<Rightarrow> json \<Rightarrow> string \<times> json \<times> string \<times> json" where
  "the_params E coin = projr (asset_params E coin)"

definition row_step :: "string \<times> json \<times> string \<times> json \<Rightarrow> asset_row option \<Rightarrow> asset_row option" where
  "row_step p old = Some (upsert_row (fst (snd p)) (fst (snd (snd p))) (snd (snd (snd p))) old)"

text \<open>The keys of the candles that the open transaction sees.\<close>

definition keys :: "('f, 't) st \<Rightarrow> (string \<times> string \<times> 't) set" where
  "keys s = candle_key ` set (price_history (pending s))"

subsection \<open>Example inputs\<close>

text \<open>
  The upper-casing function of the example environments. It maps the ASCII letters,
  which is what \<^verbatim>\<open>str.upper\<close> does on the tickers of the examples.
\<close>

definition upper_char :: "char \<Rightarrow> char" where
  "upper_char c =
     (case map_of (zip ''abcdefghijklmnopqrstuvwxyz'' ''ABCDEFGHIJKLMNOPQRSTUVWXYZ'') c of
        None \<Rightarrow> c
      | Some u \<Rightarrow> u)"

definition ascii_upper :: "string \<Rightarrow> string" where
  "ascii_upper s = map upper_char s"

definition btc_coin :: json where
  "btc_coin = JObj [(''symbol'', JStr ''BTC''), (''name'', JStr ''Bitcoin''),
                    (''image'', JStr ''img.png'')]"

definition eth_coin :: json where
  "eth_coin = JObj [(''symbol'', JStr ''eth''), (''name'', JStr ''Ethereum''),
                    (''image'', JStr ''eth.png'')]"

definition candle_a :: json where
  "candle_a = JArr [JInt 1700000000000, JStr ''100'', JStr ''110'', JStr ''90'',
                    JStr ''105'', JStr ''50'']"

definition candle_b :: json where
  "candle_b = JArr [JInt 1700003600000, JStr ''105'', JStr ''108'', JStr ''95'',
                    JStr ''106'', JStr ''40'']"

definition empty_db :: "('f, 't) db" where
  "empty_db = \<lparr>cryptocurrencies = Map.empty, price_history = []\<rparr>"

definition example_env :: "(json \<Rightarrow> 'f) \<Rightarrow> (json \<Rightarrow> 't) \<Rightarrow> ('f, 't) env" where
  "example_env fl ot =
     \<lparr>coingecko = Response 200 (Some (JArr [btc_coin])),
      binance = (\<lambda>n symb interval limit.
        if symb = ''BTCUSDT'' \<and> interval = ''1h''
        then Response 200 (Some (JArr [candle_a, candle_b]))
        else Response 200 (Some (JArr []))),
      open_time_of = (\<lambda>v. Inr (ot v)),
      float_of = (\<lambda>v. Inr (fl v)),
      str_upper = ascii_upper,
      refuses_asset = (\<lambda>p. None),
      refuses_candle = (\<lambda>r. None)\<rparr>"

text \<open>
  An environment whose conversions hand back the decoded value itself and whose candle
  provider answers every request alike.
\<close>

definition plain_env ::
  "http \<Rightarrow> http \<Rightarrow> (string \<times> json \<times> string \<times> json \<Rightarrow> py_error option)
     \<Rightarrow> (json, json) env" where
  "plain_env u k ref =
     \<lparr>coingecko = u, binance = (\<lambda>n symb interval limit. k),
      open_time_of = Inr, float_of = Inr, str_upper = ascii_upper, refuses_asset = ref,
      refuses_candle = (\<lambda>r. None)\<rparr>"

text \<open>
  The number of keys of a batch that are skipped as duplicates: a key is a duplicate
  when it is stored already or occurred earlier in the batch.
\<close>

fun duplicates :: "'k list \<Rightarrow> 'k list \<Rightarrow> nat" where
  "duplicates seen [] = 0"
| "duplicates seen (k # ks) = (if k \<in> set seen then 1 else 0) + duplicates (k # seen) ks"


definition btc_rejected_env :: "(json, json) env" where
  "btc_rejected_env =
     plain_env (Response 200 (Some (JArr [btc_coin, eth_coin]))) (Response 404 None)
       (\<lambda>p. if fst p = ''BTCUSDT'' then Some DatabaseError else None)"

definition stale_db :: "(json, json) db" where
  "stale_db =
     \<lparr>cryptocurrencies =
        [''BTCUSDT'' \<mapsto> \<lparr>name = JStr ''Bitcoin (old)'', market_type = ''Margin'',
                          image_url = JNull, active = False\<rparr>],
      price_history = []\<rparr>"

text \<open>The candles that the import of a pair attempts: what the request answers, iterated.\<close>

definition candles_of ::
  "('f, 't) env \<Rightarrow> string \<Rightarrow> string \<times> string \<Rightarrow> ('f, 't) st \<Rightarrow> json list" where
  "candles_of E symb tf s =
     (case fetch_binance_candles E symb (snd tf) 200 s of
        Inl x \<Rightarrow> []
      | Inr (candles, s2) \<Rightarrow> (case iter candles of Inl e \<Rightarrow> [] | Inr cs \<Rightarrow> cs))"

text \<open>
  An environment whose candle provider knows no symbol XYZUSDT, and the program state
  after the first \<open>n\<close> timeframes of that symbol have been imported from empty tables.
\<close>

definition xyz_env :: "(json, json) env" where
  "xyz_env =
     \<lparr>coingecko = Response 200 (Some (JArr [])),
      binance = (\<lambda>n symb interval limit.
        if symb = ''XYZUSDT'' then Response 404 None
        else Response 200 (Some (JArr [candle_a]))),
      open_time_of = Inr, float_of = Inr, str_upper = ascii_upper,
      refuses_asset = (\<lambda>p. None), refuses_candle = (\<lambda>r. None)\<rparr>"

definition xyz_state :: "nat \<Rightarrow> (json, json) st" where
  "xyz_state n =
     (start empty_db)
       \<lparr>stdout := map (\<lambda>tf. Importando ''XYZUSDT'' (fst tf)) (take n timeframes),
        requests := map (\<lambda>tf. (''XYZUSDT'', snd tf, 200)) (take n timeframes)\<rparr>"

section \<open>Properties\<close>

subsection \<open>Basic facts\<close>

lemma and_then_Inl [simp]: "and_then (Inl e) f = Inl e"
  by (simp add: and_then_def)

lemma and_then_Inr [simp]: "and_then (Inr x) f = f x"
  by (simp add: and_then_def)

lemma final_Inl [simp]: "final (Inl (e, s)) = s"
  by (simp add: final_def)

lemma final_Inr [simp]: "final (Inr s) = s"
  by (simp add: final_def)

lemma collect_symbols_committed: "committed (final (collect_symbols E cs s)) = committed s"
  by (induction cs arbitrary: s) (auto split: sum.splits)

lemma collect_symbols_Inr:
  "collect_symbols E cs s = Inr t \<longleftrightarrow>
     (\<forall>c\<in>set cs. \<exists>b. binance_symbol E c = Inr b) \<and>
     t = s\<lparr>symbols := symbols s @ map (\<lambda>c. projr (binance_symbol E c)) cs\<rparr>"
proof (induction cs arbitrary: s)
  case Nil
  show ?case by auto
next
  case (Cons coin rest)
  show ?case
  proof (cases "binance_symbol E coin")
    case (Inl e)
    then show ?thesis by auto
  next
    case (Inr b)
    then show ?thesis by (simp add: Cons.IH)
  qed
qed

lemma execute_upsert_committed: "committed (final (execute_upsert E p s)) = committed s"
  by (cases p) (simp add: execute_upsert_def split: option.splits)

lemma execute_upsert_eq:
  "execute_upsert E p s =
     (case refuses_asset E p of
        Some e \<Rightarrow> Inl (e, s)
      | None \<Rightarrow>
          Inr (s\<lparr>pending := (pending s)\<lparr>cryptocurrencies := upsert1 p (cryptocurrencies (pending s))\<rparr>\<rparr>))"
  by (cases p) (simp add: execute_upsert_def upsert1_def split: option.splits)

lemma reconcile_committed: "committed (final (reconcile E cs s)) = committed s"
proof (induction cs arbitrary: s)
  case Nil
  show ?case by simp
next
  case (Cons coin rest)
  show ?case
    using Cons.IH by (auto simp: execute_upsert_eq split: sum.splits option.splits)
qed

lemma reconcile_Inr:
  "reconcile E cs s = Inr t \<longleftrightarrow>
     (\<forall>c\<in>set cs. \<not> isl (asset_params E c) \<and> refuses_asset E (the_params E c) = None) \<and>
     t = s\<lparr>pending := (pending s)\<lparr>cryptocurrencies :=
              fold upsert1 (map (the_params E) cs) (cryptocurrencies (pending s))\<rparr>,
           symbols := symbols s @ map (\<lambda>c. fst (the_params E c)) cs\<rparr>"
proof (induction cs arbitrary: s)
  case Nil
  show ?case by auto
next
  case (Cons coin rest)
  show ?case
  proof (cases "asset_params E coin")
    case (Inl e)
    then show ?thesis by auto
  next
    case (Inr p)
    then show ?thesis
      by (cases "refuses_asset E p") (auto simp: execute_upsert_eq Cons.IH the_params_def)
  qed
qed

lemma fold_upsert1_key:
  "fold upsert1 ps m b = fold row_step (filter (\<lambda>p. fst p = b) ps) (m b)"
  by (induction ps arbitrary: m) (auto simp: upsert1_def row_step_def)

lemma upsert_row_fields [simp]:
  "name (upsert_row nm mt img old) = nm"
  "image_url (upsert_row nm mt img old) = img"
  "active (upsert_row nm mt img old) = True"
  by (simp_all add: upsert_row_def split: option.splits)

lemma fold_row_step_Some:
  "ps \<noteq> [] \<Longrightarrow> fold row_step ps (Some r) =
     Some (r\<lparr>name := fst (snd (last ps)), image_url := snd (snd (snd (last ps))), active := True\<rparr>)"
proof (induction ps arbitrary: r)
  case Nil
  then show ?case by simp
next
  case (Cons p ps)
  show ?case
  proof (cases "ps = []")
    case True
    then show ?thesis by (simp add: row_step_def upsert_row_def)
  next
    case False
    then show ?thesis
      using Cons.IH [OF False] by (simp add: row_step_def upsert_row_def)
  qed
qed

lemma fold_row_step_last:
  assumes "ps \<noteq> []" and "fold row_step ps old = Some r"
  shows "name r = fst (snd (last ps)) \<and> image_url r = snd (snd (snd (last ps))) \<and> active r"
proof -
  obtain p qs where ps: "ps = p # qs" using assms(1) by (cases ps) auto
  obtain r0 where r0: "row_step p old = Some r0" by (simp add: row_step_def)
  show ?thesis
  proof (cases "qs = []")
    case True
    with ps r0 assms(2) show ?thesis by (auto simp: row_step_def)
  next
    case False
    with ps r0 assms(2) fold_row_step_Some [OF False, of r0] show ?thesis by auto
  qed
qed

lemma fold_row_step_idem: "fold row_step ps (fold row_step ps old) = fold row_step ps old"
proof (cases "ps = []")
  case True
  then show ?thesis by simp
next
  case False
  obtain p qs where ps: "ps = p # qs" using False by (cases ps) auto
  have "\<exists>r. fold row_step ps old = Some r"
  proof (cases "qs = []")
    case True
    with ps show ?thesis by (simp add: row_step_def)
  next
    case False
    then show ?thesis
      using fold_row_step_Some [OF False] ps by (simp add: row_step_def)
  qed
  then obtain r where r: "fold row_step ps old = Some r" by blast
  from fold_row_step_last [OF False r] have "r\<lparr>name := fst (snd (last ps)),
      image_url := snd (snd (snd (last ps))), active := True\<rparr> = r"
    by simp
  with r fold_row_step_Some [OF False, of r] show ?thesis by simp
qed

lemma fold_upsert1_idem: "fold upsert1 ps (fold upsert1 ps m) = fold upsert1 ps m"
proof
  fix b
  show "fold upsert1 ps (fold upsert1 ps m) b = fold upsert1 ps m b"
    by (simp add: fold_upsert1_key fold_row_step_idem)
qed


subsection \<open>The import loops\<close>

lemma insert_or_ignore_keys:
  "candle_key ` set (insert_or_ignore r rows) = insert (candle_key r) (candle_key ` set rows)"
  by (auto simp: insert_or_ignore_def)

lemma insert_or_ignore_present:
  "candle_key r \<in> set (map candle_key rows) \<Longrightarrow> insert_or_ignore r rows = rows"
  by (simp add: insert_or_ignore_def)

lemma execute_insert_committed: "committed (final (execute_insert E r s)) = committed s"
  by (simp add: execute_insert_def split: option.splits)

lemma execute_insert_Inr:
  "execute_insert E r s = Inr t \<Longrightarrow>
     refuses_candle E r = None \<and>
     t = s\<lparr>pending := (pending s)\<lparr>price_history := insert_or_ignore r (price_history (pending s))\<rparr>\<rparr>"
  by (auto simp: execute_insert_def split: option.splits)

lemma execute_insert_replay:
  assumes "refuses_candle E r = None" and "candle_key r \<in> keys s"
  shows "execute_insert E r s = Inr s"
  using assms by (simp add: execute_insert_def keys_def insert_or_ignore_present)

lemma import_candles_committed:
  "committed (final (import_candles E symb tf cs s)) = committed s"
proof (induction cs arbitrary: s)
  case Nil
  show ?case by simp
next
  case (Cons c cs)
  show ?case
    using Cons.IH by (auto simp: execute_insert_def split: sum.splits option.splits)
qed

lemma import_candles_frame:
  "import_candles E symb tf cs s = Inr t \<Longrightarrow>
     cryptocurrencies (pending t) = cryptocurrencies (pending s) \<and> symbols t = symbols s \<and>
     requests t = requests s \<and> stdout t = stdout s \<and> keys s \<subseteq> keys t"
proof (induction cs arbitrary: s)
  case Nil
  then show ?case by simp
next
  case (Cons c cs)
  from Cons.prems obtain r s1 where r: "candle_values E symb tf c = Inr r"
    and s1: "execute_insert E r s = Inr s1" and rest: "import_candles E symb tf cs s1 = Inr t"
    by (auto split: sum.splits)
  from execute_insert_Inr [OF s1] have
    "cryptocurrencies (pending s1) = cryptocurrencies (pending s)" "symbols s1 = symbols s"
    "requests s1 = requests s" "stdout s1 = stdout s" "keys s \<subseteq> keys s1"
    by (auto simp: keys_def insert_or_ignore_keys)
  with Cons.IH [OF rest] show ?case by auto
qed

lemma import_candles_replay:
  "import_candles E symb tf cs s = Inr t \<Longrightarrow> keys t \<subseteq> keys s' \<Longrightarrow>
     import_candles E symb tf cs s' = Inr s'"
proof (induction cs arbitrary: s)
  case Nil
  then show ?case by simp
next
  case (Cons c cs)
  from Cons.prems obtain r s1 where r: "candle_values E symb tf c = Inr r"
    and s1: "execute_insert E r s = Inr s1" and rest: "import_candles E symb tf cs s1 = Inr t"
    by (auto split: sum.splits)
  from execute_insert_Inr [OF s1] have ok: "refuses_candle E r = None" and "candle_key r \<in> keys s1"
    by (auto simp: keys_def insert_or_ignore_keys)
  with import_candles_frame [OF rest] Cons.prems(2) have "candle_key r \<in> keys s'" by auto
  with ok have "execute_insert E r s' = Inr s'" by (rule execute_insert_replay)
  with r Cons.IH [OF rest Cons.prems(2)] show ?case by simp
qed

lemma fetch_committed_Inl:
  "fetch_binance_candles E symb iv lmt s = Inl (e, t) \<Longrightarrow>
     t = s\<lparr>requests := requests s @ [(symb, iv, lmt)]\<rparr>"
  by (auto simp: fetch_binance_candles_def Let_def split: http.splits if_splits option.splits)

lemma fetch_Inr:
  "fetch_binance_candles E symb iv lmt s = Inr (j, t) \<Longrightarrow>
     t = s\<lparr>requests := requests s @ [(symb, iv, lmt)]\<rparr>"
  by (auto simp: fetch_binance_candles_def Let_def split: http.splits if_splits option.splits)

lemma fetch_cong:
  "requests s' = requests s \<Longrightarrow> fetch_binance_candles E symb iv lmt s = Inr (j, t) \<Longrightarrow>
     fetch_binance_candles E symb iv lmt s' = Inr (j, s'\<lparr>requests := requests s' @ [(symb, iv, lmt)]\<rparr>)"
  by (auto simp: fetch_binance_candles_def Let_def split: http.splits if_splits option.splits)

lemma import_history_committed:
  "committed (final (import_history E symb tf s)) = committed s"
proof (cases "fetch_binance_candles E symb (snd tf) 200 (s\<lparr>stdout := stdout s @ [Importando symb (fst tf)]\<rparr>)")
  case (Inl x)
  obtain e t where x: "x = (e, t)" by (cases x)
  from fetch_committed_Inl [OF Inl [unfolded x]] have "committed t = committed s" by simp
  with Inl x show ?thesis by (simp add: import_history_def)
next
  case (Inr y)
  obtain j t where y: "y = (j, t)" by (cases y)
  from fetch_Inr [OF Inr [unfolded y]] have "committed t = committed s" by simp
  with Inr y import_candles_committed [of E symb "fst tf" _ t] show ?thesis
    by (auto simp: import_history_def split: sum.splits)
qed

lemma import_history_frame:
  assumes "import_history E symb tf s = Inr t"
  shows "cryptocurrencies (pending t) = cryptocurrencies (pending s) \<and> symbols t = symbols s \<and>
     requests t = requests s @ [(symb, snd tf, 200)] \<and> keys s \<subseteq> keys t"
proof -
  from assms obtain j s2 cs where
    f: "fetch_binance_candles E symb (snd tf) 200 (s\<lparr>stdout := stdout s @ [Importando symb (fst tf)]\<rparr>) = Inr (j, s2)"
    and i: "iter j = Inr cs" and c: "import_candles E symb (fst tf) cs s2 = Inr t"
    by (auto simp: import_history_def split: sum.splits)
  from fetch_Inr [OF f] import_candles_frame [OF c] show ?thesis
    by (auto simp: keys_def)
qed

lemma import_history_replay:
  assumes "import_history E symb tf s = Inr t" and "requests s' = requests s" and "keys t \<subseteq> keys s'"
  shows "\<exists>t'. import_history E symb tf s' = Inr t' \<and> pending t' = pending s' \<and>
           committed t' = committed s' \<and> requests t' = requests t"
proof -
  from assms(1) obtain j s2 cs where
    f: "fetch_binance_candles E symb (snd tf) 200 (s\<lparr>stdout := stdout s @ [Importando symb (fst tf)]\<rparr>) = Inr (j, s2)"
    and i: "iter j = Inr cs" and c: "import_candles E symb (fst tf) cs s2 = Inr t"
    by (auto simp: import_history_def split: sum.splits)
  let ?s1 = "s'\<lparr>stdout := stdout s' @ [Importando symb (fst tf)]\<rparr>"
  let ?s2 = "?s1\<lparr>requests := requests ?s1 @ [(symb, snd tf, 200)]\<rparr>"
  have f': "fetch_binance_candles E symb (snd tf) 200 ?s1 = Inr (j, ?s2)"
    by (rule fetch_cong [OF _ f]) (simp add: assms(2))
  have "keys t \<subseteq> keys ?s2" using assms(3) by (simp add: keys_def)
  from import_candles_replay [OF c this] have "import_candles E symb (fst tf) cs ?s2 = Inr ?s2" .
  with f' i have "import_history E symb tf s' = Inr ?s2" by (simp add: import_history_def)
  moreover have "requests ?s2 = requests t"
    using import_history_frame [OF assms(1)] assms(2) by simp
  ultimately show ?thesis by simp
qed


lemma import_timeframes_committed:
  "committed (final (import_timeframes E symb tfs s)) = committed s"
proof (induction tfs arbitrary: s)
  case Nil
  show ?case by simp
next
  case (Cons tf tfs)
  show ?case
  proof (cases "import_history E symb tf s")
    case (Inl x)
    with import_history_committed [of E symb tf s] show ?thesis by simp
  next
    case (Inr s1)
    with import_history_committed [of E symb tf s] Cons.IH [of s1] show ?thesis by simp
  qed
qed

lemma import_timeframes_frame:
  "import_timeframes E symb tfs s = Inr t \<Longrightarrow>
     cryptocurrencies (pending t) = cryptocurrencies (pending s) \<and> symbols t = symbols s \<and>
     requests t = requests s @ map (\<lambda>tf. (symb, snd tf, 200)) tfs \<and> keys s \<subseteq> keys t"
proof (induction tfs arbitrary: s)
  case Nil
  then show ?case by simp
next
  case (Cons tf tfs)
  from Cons.prems obtain s1 where h: "import_history E symb tf s = Inr s1"
    and rest: "import_timeframes E symb tfs s1 = Inr t"
    by (auto split: sum.splits)
  from import_history_frame [OF h] Cons.IH [OF rest] show ?case by auto
qed

lemma import_timeframes_replay:
  "import_timeframes E symb tfs s = Inr t \<Longrightarrow> requests s' = requests s \<Longrightarrow> keys t \<subseteq> keys s' \<Longrightarrow>
     \<exists>t'. import_timeframes E symb tfs s' = Inr t' \<and> pending t' = pending s' \<and>
           committed t' = committed s' \<and> requests t' = requests t"
proof (induction tfs arbitrary: s s')
  case Nil
  then show ?case by simp
next
  case (Cons tf tfs)
  from Cons.prems(1) obtain s1 where h: "import_history E symb tf s = Inr s1"
    and rest: "import_timeframes E symb tfs s1 = Inr t"
    by (auto split: sum.splits)
  from import_timeframes_frame [OF rest] Cons.prems(3) have "keys s1 \<subseteq> keys s'" by auto
  from import_history_replay [OF h Cons.prems(2) this] obtain s1' where
    h': "import_history E symb tf s' = Inr s1'" and p: "pending s1' = pending s'"
    and c: "committed s1' = committed s'" and r: "requests s1' = requests s1"
    by blast
  from Cons.prems(3) p have "keys t \<subseteq> keys s1'" by (simp add: keys_def)
  from Cons.IH [OF rest r this] h' p c show ?case by auto
qed

lemma import_symbols_committed:
  "committed (final (import_symbols E syms s)) = committed s"
proof (induction syms arbitrary: s)
  case Nil
  show ?case by simp
next
  case (Cons symb syms)
  show ?case
  proof (cases "import_timeframes E symb timeframes s")
    case (Inl x)
    with import_timeframes_committed [of E symb timeframes s] show ?thesis by simp
  next
    case (Inr s1)
    with import_timeframes_committed [of E symb timeframes s] Cons.IH [of s1] show ?thesis by simp
  qed
qed

lemma import_symbols_frame:
  "import_symbols E syms s = Inr t \<Longrightarrow>
     cryptocurrencies (pending t) = cryptocurrencies (pending s) \<and> symbols t = symbols s \<and>
     requests t = requests s @ concat (map (\<lambda>b. map (\<lambda>tf. (b, snd tf, 200)) timeframes) syms) \<and>
     keys s \<subseteq> keys t"
proof (induction syms arbitrary: s)
  case Nil
  then show ?case by simp
next
  case (Cons symb syms)
  from Cons.prems obtain s1 where h: "import_timeframes E symb timeframes s = Inr s1"
    and rest: "import_symbols E syms s1 = Inr t"
    by (auto split: sum.splits)
  from import_timeframes_frame [OF h] Cons.IH [OF rest] show ?case by auto
qed

lemma import_symbols_replay:
  "import_symbols E syms s = Inr t \<Longrightarrow> requests s' = requests s \<Longrightarrow> keys t \<subseteq> keys s' \<Longrightarrow>
     \<exists>t'. import_symbols E syms s' = Inr t' \<and> pending t' = pending s' \<and>
           committed t' = committed s' \<and> requests t' = requests t"
proof (induction syms arbitrary: s s')
  case Nil
  then show ?case by simp
next
  case (Cons symb syms)
  from Cons.prems(1) obtain s1 where h: "import_timeframes E symb timeframes s = Inr s1"
    and rest: "import_symbols E syms s1 = Inr t"
    by (auto split: sum.splits)
  from import_symbols_frame [OF rest] Cons.prems(3) have "keys s1 \<subseteq> keys s'" by auto
  from import_timeframes_replay [OF h Cons.prems(2) this] obtain s1' where
    h': "import_timeframes E symb timeframes s' = Inr s1'" and p: "pending s1' = pending s'"
    and c: "committed s1' = committed s'" and r: "requests s1' = requests s1"
    by blast
  from Cons.prems(3) p have "keys t \<subseteq> keys s1'" by (simp add: keys_def)
  from Cons.IH [OF rest r this] h' p c show ?case by auto
qed

subsection \<open>The whole run\<close>

lemma main_stored_cases:
  "stored (main E d) = (case main E d of Inl x \<Rightarrow> d | Inr s \<Rightarrow> pending s)"
proof (cases "main E d")
  case (Inr s)
  then show ?thesis
    by (auto simp: main_def stored_def commit_def split: http.splits option.splits sum.splits)
next
  case Inl_main: (Inl x)
  obtain e s where x: "x = (e, s)" by (cases x)
  have "committed s = d"
  proof (cases "coingecko E")
    case ConnectionFailed
    with Inl_main x show ?thesis by (auto simp: main_def start_def)
  next
    case (Response code body)
    show ?thesis
    proof (cases body)
      case None
      with Inl_main x Response show ?thesis by (auto simp: main_def start_def)
    next
      case (Some coins)
      show ?thesis
      proof (cases "iter coins")
        case (Inl e')
        with Inl_main x Response Some show ?thesis by (auto simp: main_def start_def)
      next
        case cs: (Inr cs)
        show ?thesis
        proof (cases "collect_symbols E cs (start d)")
          case (Inl y)
          with Inl_main x Response Some cs
            collect_symbols_committed [of E cs "start d"]
          show ?thesis by (auto simp: main_def start_def)
        next
          case s1: (Inr s1)
          with collect_symbols_committed [of E cs "start d"]
          have c1: "committed s1 = d" by (simp add: start_def)
          show ?thesis
          proof (cases "reconcile E cs s1")
            case (Inl y)
            with Inl_main x Response Some cs s1 c1
              reconcile_committed [of E cs s1]
            show ?thesis by (auto simp: main_def)
          next
            case s2: (Inr s2)
            with reconcile_committed [of E cs s1] c1 have c2: "committed s2 = d" by simp
            show ?thesis
            proof (cases "import_symbols E (symbols s2) s2")
              case (Inl y)
              with Inl_main x Response Some cs s1 s2 c2
                import_symbols_committed [of E "symbols s2" s2]
              show ?thesis by (auto simp: main_def)
            next
              case (Inr s3)
              with Inl_main x Response Some cs s1 s2
              show ?thesis by (auto simp: main_def)
            qed
          qed
        qed
      qed
    qed
  qed
  with Inl_main x show ?thesis by (simp add: stored_def)
qed

lemma main_Inr:
  "main E d = Inr s \<longleftrightarrow>
     (\<exists>code coins cs s1 s2 s3.
        coingecko E = Response code (Some coins) \<and> iter coins = Inr cs \<and>
        collect_symbols E cs (start d) = Inr s1 \<and> reconcile E cs s1 = Inr s2 \<and>
        import_symbols E (symbols s2) s2 = Inr s3 \<and>
        s = (commit s3)\<lparr>stdout := stdout s3 @ [Concluida]\<rparr>)"
  by (auto simp: main_def split: http.splits option.splits sum.splits)

subsection \<open>Durability\<close>

text \<open>
  Claim C10. The writes of a run become durable only through the commit that follows the
  import loop: when the run raises, at whatever point, the database holds exactly what
  it held before the run, and when the run returns it holds what the transaction saw
  at the commit.
\<close>

theorem main_all_or_nothing:
  "stored (main E d) = (case main E d of Inl x \<Rightarrow> d | Inr s \<Rightarrow> pending s)"
  by (rule main_stored_cases)

subsection \<open>Idempotence\<close>

text \<open>
  Claim C2. Running the whole script a second time on the database the first run left,
  against the same answers of the two providers, leaves the database as the first run
  left it: the candles of the second run all meet a stored key and are ignored, and the
  upserts of the second run write the values the rows already hold.
\<close>

theorem main_idempotent:
  "stored (main E (stored (main E d))) = stored (main E d)"
proof (cases "main E d")
  case (Inl x)
  with main_stored_cases [of E d] have "stored (main E d) = d" by simp
  then show ?thesis by simp
next
  case (Inr s)
  then obtain code coins cs s1 s2 s3 where
    g: "coingecko E = Response code (Some coins)" and it: "iter coins = Inr cs" and
    c1: "collect_symbols E cs (start d) = Inr s1" and r1: "reconcile E cs s1 = Inr s2" and
    i1: "import_symbols E (symbols s2) s2 = Inr s3" and
    s: "s = (commit s3)\<lparr>stdout := stdout s3 @ [Concluida]\<rparr>"
    unfolding main_Inr by blast
  define d1 where "d1 = pending s3"
  have st: "stored (main E d) = d1"
    using main_stored_cases [of E d] Inr s by (simp add: d1_def commit_def)
  define s1' where "s1' = (start d1)\<lparr>symbols := symbols (start d1) @ map (\<lambda>c. projr (binance_symbol E c)) cs\<rparr>"
  have c2: "collect_symbols E cs (start d1) = Inr s1'"
    using c1 unfolding collect_symbols_Inr s1'_def by simp
  have s1: "s1 = (start d)\<lparr>symbols := symbols (start d) @ map (\<lambda>c. projr (binance_symbol E c)) cs\<rparr>"
    using c1 unfolding collect_symbols_Inr by simp
  define s2' where "s2' = s1'\<lparr>pending := (pending s1')\<lparr>cryptocurrencies :=
              fold upsert1 (map (the_params E) cs) (cryptocurrencies (pending s1'))\<rparr>,
           symbols := symbols s1' @ map (\<lambda>c. fst (the_params E c)) cs\<rparr>"
  have r2: "reconcile E cs s1' = Inr s2'"
    using r1 unfolding reconcile_Inr s2'_def by simp
  have s2: "s2 = s1\<lparr>pending := (pending s1)\<lparr>cryptocurrencies :=
              fold upsert1 (map (the_params E) cs) (cryptocurrencies (pending s1))\<rparr>,
           symbols := symbols s1 @ map (\<lambda>c. fst (the_params E c)) cs\<rparr>"
    using r1 unfolding reconcile_Inr by simp
  from import_symbols_frame [OF i1] have
    reg3: "cryptocurrencies (pending s3) = cryptocurrencies (pending s2)" by simp
  have reg: "cryptocurrencies d1 = fold upsert1 (map (the_params E) cs) (cryptocurrencies d)"
    unfolding d1_def reg3 by (simp add: s2 s1 start_def)
  have p2: "pending s2' = d1"
    by (simp add: s2'_def s1'_def start_def reg fold_upsert1_idem)
  have sy: "symbols s2' = symbols s2"
    by (simp add: s2'_def s1'_def s2 s1 start_def)
  have rq: "requests s2' = requests s2"
    by (simp add: s2'_def s1'_def s2 s1 start_def)
  have "keys s3 \<subseteq> keys s2'"
    by (simp add: keys_def p2 d1_def)
  from import_symbols_replay [OF i1 rq this] obtain s3' where
    i2: "import_symbols E (symbols s2) s2' = Inr s3'" and p3: "pending s3' = pending s2'"
    by blast
  have "main E d1 = Inr ((commit s3')\<lparr>stdout := stdout s3' @ [Concluida]\<rparr>)"
    unfolding main_Inr using g it c2 r2 i2 sy by auto
  with main_stored_cases [of E d1] have "stored (main E d1) = d1"
    by (simp add: commit_def p3 p2)
  with st show ?thesis by simp
qed

subsection \<open>Evaluation on concrete inputs\<close>

text \<open>The definitions that a run on a concrete input unfolds.\<close>

lemmas eval_defs = main_def start_def commit_def final_def stored_def binance_symbol_def ascii_upper_def upper_char_def
    asset_params_def execute_upsert_def upsert_row_def timeframes_def import_history_def
    fetch_binance_candles_def candle_values_def float_field_def execute_insert_def
    insert_or_ignore_def candle_key_def

subsection \<open>The end-to-end example\<close>

text \<open>
  Claim C7. One asset with ticker BTC, name Bitcoin and image img.png, and two raw candles
  for BTCUSDT at 1h with open times 1700000000000 and 1700003600000: starting from empty
  tables the run stores one asset row (BTCUSDT, Bitcoin, Spot, active) and two candle
  rows. Each candle row carries the conversion of its open time both as \<open>timestamp\<close> and
  as \<open>created_at\<close>, and the conversions to float of its five strings. The conversions are
  any two functions \<open>ot\<close> and \<open>fl\<close> that do not raise; the two open times have to convert
  to different timestamps, as they do for \<^verbatim>\<open>utcfromtimestamp\<close>.
\<close>

theorem example_run_stored:
  assumes "ot (JInt 1700000000000) \<noteq> ot (JInt 1700003600000)"
  shows "stored (main (example_env fl ot) empty_db) =
     \<lparr>cryptocurrencies =
        [''BTCUSDT'' \<mapsto> \<lparr>name = JStr ''Bitcoin'', market_type = ''Spot'',
                          image_url = JStr ''img.png'', active = True\<rparr>],
      price_history =
        [\<lparr>symbol = ''BTCUSDT'', timeframe = ''1h'',
          open_price = fl (JStr ''100''), high_price = fl (JStr ''110''),
          low_price = fl (JStr ''90''), close_price = fl (JStr ''105''),
          volume = fl (JStr ''50''),
          timestamp = ot (JInt 1700000000000), created_at = ot (JInt 1700000000000)\<rparr>,
         \<lparr>symbol = ''BTCUSDT'', timeframe = ''1h'',
          open_price = fl (JStr ''105''), high_price = fl (JStr ''108''),
          low_price = fl (JStr ''95''), close_price = fl (JStr ''106''),
          volume = fl (JStr ''40''),
          timestamp = ot (JInt 1700003600000), created_at = ot (JInt 1700003600000)\<rparr>]\<rparr>"
  using assms
  by (simp add: example_env_def empty_db_def btc_coin_def candle_a_def candle_b_def eval_defs)

theorem example_run_stored_witness:
  "JInt 1700000000000 \<noteq> JInt 1700003600000 \<and>
   stored (main (example_env (\<lambda>v. v) (\<lambda>v. v)) empty_db) =
     \<lparr>cryptocurrencies =
        [''BTCUSDT'' \<mapsto> \<lparr>name = JStr ''Bitcoin'', market_type = ''Spot'',
                          image_url = JStr ''img.png'', active = True\<rparr>],
      price_history =
        [\<lparr>symbol = ''BTCUSDT'', timeframe = ''1h'',
          open_price = JStr ''100'', high_price = JStr ''110'',
          low_price = JStr ''90'', close_price = JStr ''105'',
          volume = JStr ''50'',
          timestamp = JInt 1700000000000, created_at = JInt 1700000000000\<rparr>,
         \<lparr>symbol = ''BTCUSDT'', timeframe = ''1h'',
          open_price = JStr ''105'', high_price = JStr ''108'',
          low_price = JStr ''95'', close_price = JStr ''106'',
          volume = JStr ''40'',
          timestamp = JInt 1700003600000, created_at = JInt 1700003600000\<rparr>]\<rparr>"
proof -
  have h: "(\<lambda>v. v) (JInt 1700000000000) \<noteq> (\<lambda>v::json. v) (JInt 1700003600000)" by simp
  show ?thesis using example_run_stored [OF h, of "\<lambda>v. v"] by simp
qed

subsection \<open>A ranking answer with a non-success status\<close>

lemma binance_symbol_coingecko:
  "binance_symbol (E\<lparr>coingecko := u\<rparr>) coin = binance_symbol E coin"
  by (simp add: binance_symbol_def split: sum.splits)

lemma asset_params_coingecko:
  "asset_params (E\<lparr>coingecko := u\<rparr>) coin = asset_params E coin"
  by (simp add: asset_params_def binance_symbol_coingecko)

lemma collect_symbols_coingecko:
  "collect_symbols (E\<lparr>coingecko := u\<rparr>) cs s = collect_symbols E cs s"
  by (induction cs arbitrary: s) (auto simp: binance_symbol_coingecko split: sum.splits)

lemma reconcile_coingecko: "reconcile (E\<lparr>coingecko := u\<rparr>) cs s = reconcile E cs s"
  by (induction cs arbitrary: s)
     (auto simp: execute_upsert_eq asset_params_coingecko split: sum.splits option.splits)

lemma import_candles_coingecko:
  "import_candles (E\<lparr>coingecko := u\<rparr>) symb tf cs s = import_candles E symb tf cs s"
  by (induction cs arbitrary: s)
     (auto simp: candle_values_def float_field_def execute_insert_def
        split: sum.splits option.splits)

lemma import_history_coingecko:
  "import_history (E\<lparr>coingecko := u\<rparr>) symb tf s = import_history E symb tf s"
  by (simp add: import_history_def fetch_binance_candles_def import_candles_coingecko
      split: sum.splits prod.splits)

lemma import_timeframes_coingecko:
  "import_timeframes (E\<lparr>coingecko := u\<rparr>) symb tfs s = import_timeframes E symb tfs s"
  by (induction tfs arbitrary: s) (auto simp: import_history_coingecko split: sum.splits)

lemma import_symbols_coingecko:
  "import_symbols (E\<lparr>coingecko := u\<rparr>) syms s = import_symbols E syms s"
  by (induction syms arbitrary: s) (auto simp: import_timeframes_coingecko split: sum.splits)

lemma main_status_irrelevant:
  "main (E\<lparr>coingecko := Response code body\<rparr>) d = main (E\<lparr>coingecko := Response 200 body\<rparr>) d"
  by (simp add: main_def collect_symbols_coingecko reconcile_coingecko import_symbols_coingecko
      split: sum.splits option.splits)

text \<open>
  Claim C4, run at an input where it fails. The ranking provider answers with status 503
  and a body that is a list of one coin. The script never reads the status: the run goes
  through reconciliation and import, commits, and the asset row is stored.
\<close>

theorem non_success_universe_is_imported:
  "stored (main (plain_env (Response 503 (Some (JArr [btc_coin]))) (Response 404 None) (\<lambda>p. None))
      empty_db) =
     \<lparr>cryptocurrencies =
        [''BTCUSDT'' \<mapsto> \<lparr>name = JStr ''Bitcoin'', market_type = ''Spot'',
                          image_url = JStr ''img.png'', active = True\<rparr>],
      price_history = []\<rparr>"
  by (simp add: plain_env_def empty_db_def btc_coin_def eval_defs)

subsection \<open>The number of candle requests\<close>

lemma concat_product:
  "concat (map (\<lambda>b. map (\<lambda>tf. (b, snd tf, n)) tfs) syms) =
     map (\<lambda>p. (fst p, snd (snd p), n)) (List.product syms tfs)"
  by (induction syms) (simp_all add: comp_def)

text \<open>
  Claim C1, as the code behaves. The list \<open>symbols\<close> receives every derived symbol twice,
  once in the loop of lines 29 to 31 and once more in the reconciliation loop (line 58).
  A run that returns has therefore sent the candle request of every (symbol, timeframe)
  pair twice: twelve requests for each asset of the universe, not six.
\<close>

theorem main_requests_each_pair_twice:
  assumes "main E d = Inr s" and "coingecko E = Response code (Some coins)" and "iter coins = Inr cs"
  shows "requests s =
           map (\<lambda>p. (fst p, snd (snd p), 200))
             (List.product (map (\<lambda>c. projr (binance_symbol E c)) (cs @ cs)) timeframes) \<and>
         length (requests s) = 12 * length cs"
proof -
  from assms(1) obtain code' coins' cs' s1 s2 s3 where
    g: "coingecko E = Response code' (Some coins')" and it: "iter coins' = Inr cs'" and
    c1: "collect_symbols E cs' (start d) = Inr s1" and r1: "reconcile E cs' s1 = Inr s2" and
    i1: "import_symbols E (symbols s2) s2 = Inr s3" and
    s: "s = (commit s3)\<lparr>stdout := stdout s3 @ [Concluida]\<rparr>"
    unfolding main_Inr by blast
  from g it assms(2,3) have cs: "cs' = cs" by simp
  have s1: "s1 = (start d)\<lparr>symbols := symbols (start d) @ map (\<lambda>c. projr (binance_symbol E c)) cs\<rparr>"
    using c1 unfolding collect_symbols_Inr cs by simp
  have ok: "\<forall>c\<in>set cs. \<not> isl (asset_params E c)"
    using r1 unfolding reconcile_Inr cs by simp
  have fstp: "\<And>c. c \<in> set cs \<Longrightarrow> fst (the_params E c) = projr (binance_symbol E c)"
  proof -
    fix c assume "c \<in> set cs"
    with ok have "\<not> isl (asset_params E c)" by simp
    then show "fst (the_params E c) = projr (binance_symbol E c)"
      by (auto simp: the_params_def asset_params_def split: sum.splits)
  qed
  have s2: "symbols s2 = map (\<lambda>c. projr (binance_symbol E c)) (cs @ cs)" and q2: "requests s2 = []"
    using r1 unfolding reconcile_Inr cs by (simp_all add: s1 start_def fstp cong: map_cong)
  from import_symbols_frame [OF i1] q2 have
    "requests s3 = concat (map (\<lambda>b. map (\<lambda>tf. (b, snd tf, 200)) timeframes) (symbols s2))"
    by simp
  also have "\<dots> = map (\<lambda>p. (fst p, snd (snd p), 200)) (List.product (symbols s2) timeframes)"
    by (rule concat_product)
  finally have r: "requests s = map (\<lambda>p. (fst p, snd (snd p), 200))
             (List.product (map (\<lambda>c. projr (binance_symbol E c)) (cs @ cs)) timeframes)"
    by (simp add: s commit_def s2)
  moreover have "length (requests s) = 12 * length cs"
    unfolding r by (simp add: timeframes_def)
  ultimately show ?thesis by simp
qed

theorem main_requests_each_pair_twice_witness:
  "main (plain_env (Response 200 (Some (JArr [btc_coin]))) (Response 404 None) (\<lambda>p. None)) empty_db =
     Inr (final (main (plain_env (Response 200 (Some (JArr [btc_coin]))) (Response 404 None) (\<lambda>p. None))
            empty_db)) \<and>
   requests (final (main (plain_env (Response 200 (Some (JArr [btc_coin]))) (Response 404 None) (\<lambda>p. None))
            empty_db)) =
     [(''BTCUSDT'', ''1m'', 200), (''BTCUSDT'', ''5m'', 200), (''BTCUSDT'', ''15m'', 200),
      (''BTCUSDT'', ''1h'', 200), (''BTCUSDT'', ''4h'', 200), (''BTCUSDT'', ''1d'', 200),
      (''BTCUSDT'', ''1m'', 200), (''BTCUSDT'', ''5m'', 200), (''BTCUSDT'', ''15m'', 200),
      (''BTCUSDT'', ''1h'', 200), (''BTCUSDT'', ''4h'', 200), (''BTCUSDT'', ''1d'', 200)] \<and>
   length (requests (final (main (plain_env (Response 200 (Some (JArr [btc_coin]))) (Response 404 None)
            (\<lambda>p. None)) empty_db))) = 12"
proof -
  let ?E = "plain_env (Response 200 (Some (JArr [btc_coin]))) (Response 404 None) (\<lambda>p. None)"
  have h1: "main ?E empty_db = Inr (final (main ?E empty_db))"
    by (simp add: plain_env_def empty_db_def btc_coin_def eval_defs)
  have h2: "coingecko ?E = Response 200 (Some (JArr [btc_coin]))"
    by (simp add: plain_env_def)
  have h3: "iter (JArr [btc_coin]) = Inr [btc_coin]" by simp
  have b: "binance_symbol ?E btc_coin = Inr ''BTCUSDT''"
    by (simp add: plain_env_def btc_coin_def binance_symbol_def ascii_upper_def upper_char_def)
  from main_requests_each_pair_twice [OF h1 h2 h3] h1 show ?thesis
    by (simp add: b timeframes_def)
qed

subsection \<open>A failing upsert\<close>

lemma reconcile_append:
  "reconcile E (xs @ ys) s =
     (case reconcile E xs s of Inl x \<Rightarrow> Inl x | Inr s' \<Rightarrow> reconcile E ys s')"
  by (induction xs arbitrary: s) (auto split: sum.splits)

text \<open>
  Claim C3 fails on the code: the script has no error handling, so a statement that the
  database refuses raises out of the reconciliation loop. In the run below the upsert of
  BTCUSDT is refused; the run ends with that error, ETHUSDT has not been upserted, no
  candle request has been sent and nothing is committed.
\<close>

theorem upsert_failure_counterexample:
  "main btc_rejected_env empty_db =
     Inl (DatabaseError,
          \<lparr>committed = empty_db, pending = empty_db, symbols = [''BTCUSDT'', ''ETHUSDT''],
           requests = [], stdout = []\<rparr>)"
  by (simp add: btc_rejected_env_def plain_env_def empty_db_def btc_coin_def eth_coin_def eval_defs)

text \<open>
  Claim C3 as amended. When the upsert of one asset of the batch is refused, the run
  raises the error of that statement in the state reached by the upserts before it: no later
  upsert is performed, the import phase is not reached (no request has been sent) and
  the database holds what it held before the run.
\<close>

theorem upsert_failure_aborts_run:
  assumes "coingecko E = Response code (Some coins)"
    and "iter coins = Inr (pre @ coin # post)"
    and "collect_symbols E (pre @ coin # post) (start d) = Inr s0"
    and "reconcile E pre s0 = Inr s1"
    and "asset_params E coin = Inr p"
    and "refuses_asset E p = Some e"
  shows "main E d = Inl (e, s1) \<and> requests s1 = [] \<and> committed s1 = d"
proof -
  have "reconcile E (pre @ coin # post) s0 = Inl (e, s1)"
    using assms(4,5,6) by (simp add: reconcile_append execute_upsert_eq)
  with assms(1,2,3) have m: "main E d = Inl (e, s1)"
    by (simp add: main_def)
  have s0: "requests s0 = []"
    using assms(3) unfolding collect_symbols_Inr by (simp add: start_def)
  have "requests s1 = requests s0"
    using assms(4) unfolding reconcile_Inr by simp
  moreover from main_stored_cases [of E d] m have "committed s1 = d"
    by (simp add: stored_def)
  ultimately show ?thesis using m s0 by simp
qed

theorem upsert_failure_aborts_run_witness:
  "coingecko btc_rejected_env = Response 200 (Some (JArr [btc_coin, eth_coin])) \<and>
   iter (JArr [btc_coin, eth_coin]) = Inr ([] @ btc_coin # [eth_coin]) \<and>
   collect_symbols btc_rejected_env ([] @ btc_coin # [eth_coin]) (start empty_db) =
     Inr ((start (empty_db :: (json, json) db))\<lparr>symbols := [''BTCUSDT'', ''ETHUSDT'']\<rparr>) \<and>
   reconcile btc_rejected_env [] ((start empty_db)\<lparr>symbols := [''BTCUSDT'', ''ETHUSDT'']\<rparr>) =
     Inr ((start empty_db)\<lparr>symbols := [''BTCUSDT'', ''ETHUSDT'']\<rparr>) \<and>
   asset_params btc_rejected_env btc_coin =
     Inr (''BTCUSDT'', JStr ''Bitcoin'', ''Spot'', JStr ''img.png'') \<and>
   refuses_asset btc_rejected_env (''BTCUSDT'', JStr ''Bitcoin'', ''Spot'', JStr ''img.png'') =
     Some DatabaseError \<and>
   main btc_rejected_env empty_db =
     Inl (DatabaseError, (start empty_db)\<lparr>symbols := [''BTCUSDT'', ''ETHUSDT'']\<rparr>) \<and>
   requests ((start (empty_db :: (json, json) db))\<lparr>symbols := [''BTCUSDT'', ''ETHUSDT'']\<rparr>) = [] \<and>
   committed ((start (empty_db :: (json, json) db))\<lparr>symbols := [''BTCUSDT'', ''ETHUSDT'']\<rparr>) = empty_db"
proof -
  let ?s = "(start (empty_db :: (json, json) db))\<lparr>symbols := [''BTCUSDT'', ''ETHUSDT'']\<rparr>"
  have h1: "coingecko btc_rejected_env = Response 200 (Some (JArr [btc_coin, eth_coin]))"
    by (simp add: btc_rejected_env_def plain_env_def)
  have h2: "iter (JArr [btc_coin, eth_coin]) = Inr ([] @ btc_coin # [eth_coin])" by simp
  have h3: "collect_symbols btc_rejected_env ([] @ btc_coin # [eth_coin]) (start empty_db) = Inr ?s"
    by (simp add: btc_rejected_env_def plain_env_def btc_coin_def eth_coin_def binance_symbol_def
        ascii_upper_def upper_char_def start_def)
  have h4: "reconcile btc_rejected_env [] ?s = Inr ?s" by simp
  have h5: "asset_params btc_rejected_env btc_coin =
      Inr (''BTCUSDT'', JStr ''Bitcoin'', ''Spot'', JStr ''img.png'')"
    by (simp add: btc_rejected_env_def plain_env_def btc_coin_def asset_params_def binance_symbol_def
        ascii_upper_def upper_char_def)
  have h6: "refuses_asset btc_rejected_env (''BTCUSDT'', JStr ''Bitcoin'', ''Spot'', JStr ''img.png'') =
      Some DatabaseError"
    by (simp add: btc_rejected_env_def plain_env_def)
  from upsert_failure_aborts_run [OF h1 h2 h3 h4 h5 h6] h1 h2 h3 h4 h5 h6 show ?thesis by simp
qed

subsection \<open>An empty answer of the candle provider\<close>

lemma import_timeframes_append:
  "import_timeframes E symb (xs @ ys) s =
     (case import_timeframes E symb xs s of Inl x \<Rightarrow> Inl x | Inr s' \<Rightarrow> import_timeframes E symb ys s')"
  by (induction xs arbitrary: s) (auto split: sum.splits)

lemma import_symbols_append:
  "import_symbols E (xs @ ys) s =
     (case import_symbols E xs s of Inl x \<Rightarrow> Inl x | Inr s' \<Rightarrow> import_symbols E ys s')"
  by (induction xs arbitrary: s) (auto split: sum.splits)

text \<open>
  Claim C5. A candle request answered with a status other than 200 gives the empty list
  instead of raising. When the request of a pair gives the empty list, at whatever place
  of the symbol list and of the timeframes the pair stands, the import of that pair
  returns without touching a table, and the import loop of the script goes on from
  there: it runs the remaining timeframes of the symbol and then the remaining symbols.
\<close>

theorem empty_fetch_continues:
  "(binance E (length (requests s)) symb (snd tf) 200 = Response code body \<and> code \<noteq> 200 \<longrightarrow>
      fetch_binance_candles E symb (snd tf) 200 s =
        Inr (JArr [], s\<lparr>requests := requests s @ [(symb, snd tf, 200)]\<rparr>)) \<and>
   (timeframes = tpre @ tf # tpost \<and>
    import_symbols E pre s0 = Inr s1 \<and>
    import_timeframes E symb tpre s1 = Inr s \<and>
    fetch_binance_candles E symb (snd tf) 200 (s\<lparr>stdout := stdout s @ [Importando symb (fst tf)]\<rparr>) =
      Inr (JArr [], s2) \<longrightarrow>
      import_history E symb tf s = Inr s2 \<and> pending s2 = pending s \<and> committed s2 = committed s \<and>
      import_symbols E (pre @ symb # post) s0 =
        (case import_timeframes E symb tpost s2 of
           Inl x \<Rightarrow> Inl x
         | Inr s' \<Rightarrow> import_symbols E post s'))"
proof (intro conjI impI)
  assume "binance E (length (requests s)) symb (snd tf) 200 = Response code body \<and> code \<noteq> 200"
  then show "fetch_binance_candles E symb (snd tf) 200 s =
        Inr (JArr [], s\<lparr>requests := requests s @ [(symb, snd tf, 200)]\<rparr>)"
    by (simp add: fetch_binance_candles_def)
next
  assume a: "timeframes = tpre @ tf # tpost \<and>
    import_symbols E pre s0 = Inr s1 \<and>
    import_timeframes E symb tpre s1 = Inr s \<and>
    fetch_binance_candles E symb (snd tf) 200 (s\<lparr>stdout := stdout s @ [Importando symb (fst tf)]\<rparr>) =
      Inr (JArr [], s2)"
  then have f: "fetch_binance_candles E symb (snd tf) 200
      (s\<lparr>stdout := stdout s @ [Importando symb (fst tf)]\<rparr>) = Inr (JArr [], s2)" by simp
  then show h: "import_history E symb tf s = Inr s2" by (simp add: import_history_def)
  from fetch_Inr [OF f] show "pending s2 = pending s" by simp
  from fetch_Inr [OF f] show "committed s2 = committed s" by simp
  from a have tfs: "timeframes = tpre @ tf # tpost" and p: "import_symbols E pre s0 = Inr s1"
    and q: "import_timeframes E symb tpre s1 = Inr s" by blast+
  have "import_timeframes E symb (tpre @ tf # tpost) s1 = import_timeframes E symb tpost s2"
    using q h by (simp add: import_timeframes_append)
  then have t: "import_timeframes E symb timeframes s1 = import_timeframes E symb tpost s2"
    unfolding tfs .
  from p have "import_symbols E (pre @ symb # post) s0 = import_symbols E (symb # post) s1"
    by (simp add: import_symbols_append)
  also have "\<dots> = (case import_timeframes E symb tpost s2 of
           Inl x \<Rightarrow> Inl x
         | Inr s' \<Rightarrow> import_symbols E post s')"
    by (simp add: t)
  finally show "import_symbols E (pre @ symb # post) s0 =
        (case import_timeframes E symb tpost s2 of
           Inl x \<Rightarrow> Inl x
         | Inr s' \<Rightarrow> import_symbols E post s')" .
qed

theorem empty_fetch_continues_witness:
  "binance xyz_env (length (requests (xyz_state 5))) ''XYZUSDT'' (snd (''1d'', ''1d'')) 200 =
     Response 404 None \<and> (404 :: nat) \<noteq> 200 \<and>
   fetch_binance_candles xyz_env ''XYZUSDT'' (snd (''1d'', ''1d'')) 200 (xyz_state 5) =
     Inr (JArr [], (xyz_state 5)\<lparr>requests := requests (xyz_state 5) @ [(''XYZUSDT'', ''1d'', 200)]\<rparr>) \<and>
   timeframes = take 5 timeframes @ (''1d'', ''1d'') # [] \<and>
   import_symbols xyz_env [] (start empty_db) = Inr (start empty_db) \<and>
   import_timeframes xyz_env ''XYZUSDT'' (take 5 timeframes) (start empty_db) = Inr (xyz_state 5) \<and>
   fetch_binance_candles xyz_env ''XYZUSDT'' (snd (''1d'', ''1d'')) 200
     ((xyz_state 5)\<lparr>stdout := stdout (xyz_state 5) @ [Importando ''XYZUSDT'' (fst (''1d'', ''1d''))]\<rparr>) =
     Inr (JArr [], xyz_state 6) \<and>
   import_history xyz_env ''XYZUSDT'' (''1d'', ''1d'') (xyz_state 5) = Inr (xyz_state 6) \<and>
   pending (xyz_state 6) = pending (xyz_state 5) \<and>
   import_symbols xyz_env [''XYZUSDT'', ''BTCUSDT''] (start empty_db) =
     import_symbols xyz_env [''BTCUSDT''] (xyz_state 6) \<and>
   length (requests (final (import_symbols xyz_env [''BTCUSDT''] (xyz_state 6)))) = 12 \<and>
   length (price_history (pending (final (import_symbols xyz_env [''BTCUSDT''] (xyz_state 6))))) = 6"
proof -
  have h1: "binance xyz_env (length (requests (xyz_state 5))) ''XYZUSDT'' (snd (''1d'', ''1d'')) 200 =
     Response 404 None \<and> (404 :: nat) \<noteq> 200"
    by (simp add: xyz_env_def)
  have h2: "timeframes = take 5 timeframes @ (''1d'', ''1d'') # []"
    by (simp add: timeframes_def)
  have h3: "import_symbols xyz_env [] (start empty_db) = Inr (start empty_db)" by simp
  have h4: "import_timeframes xyz_env ''XYZUSDT'' (take 5 timeframes) (start empty_db) = Inr (xyz_state 5)"
    by (simp add: xyz_state_def xyz_env_def timeframes_def import_history_def
        fetch_binance_candles_def start_def)
  have h5: "fetch_binance_candles xyz_env ''XYZUSDT'' (snd (''1d'', ''1d'')) 200
     ((xyz_state 5)\<lparr>stdout := stdout (xyz_state 5) @ [Importando ''XYZUSDT'' (fst (''1d'', ''1d''))]\<rparr>) =
     Inr (JArr [], xyz_state 6)"
    by (simp add: xyz_state_def xyz_env_def timeframes_def fetch_binance_candles_def start_def)
  have e1: "length (requests (final (import_symbols xyz_env [''BTCUSDT''] (xyz_state 6)))) = 12"
    by (simp add: xyz_state_def xyz_env_def empty_db_def candle_a_def eval_defs)
  have e2: "length (price_history (pending (final (import_symbols xyz_env [''BTCUSDT''] (xyz_state 6))))) = 6"
    by (simp add: xyz_state_def xyz_env_def empty_db_def candle_a_def eval_defs)
  from empty_fetch_continues [of xyz_env "xyz_state 5" "''XYZUSDT''" "(''1d'', ''1d'')" 404 None
      "take 5 timeframes" "[]" "[]" "start empty_db" "start empty_db" "xyz_state 6" "[''BTCUSDT'']"]
    h1 h2 h3 h4 h5 e1 e2
  show ?thesis by simp
qed

subsection \<open>Reconciling an asset that is already stored\<close>

text \<open>
  Claim C6. Reconciling a coin whose symbol has a row sets \<open>name\<close>, \<open>image_url\<close> and
  \<open>active\<close> of that row and nothing else: \<open>market_type\<close> stays as stored (the value
  Spot of the statement is not written), and every other row and table is untouched.
\<close>

theorem reconcile_existing_symbol:
  assumes "asset_params E coin = Inr (b, nm, mt, img)"
    and "cryptocurrencies (pending s) b = Some r"
    and "refuses_asset E (b, nm, mt, img) = None"
  shows "reconcile E [coin] s =
     Inr (s\<lparr>pending := (pending s)\<lparr>cryptocurrencies :=
              (cryptocurrencies (pending s))(b \<mapsto> r\<lparr>name := nm, image_url := img, active := True\<rparr>)\<rparr>,
            symbols := symbols s @ [b]\<rparr>)"
  using assms by (simp add: execute_upsert_def upsert_row_def)

theorem reconcile_existing_symbol_witness:
  "asset_params (plain_env (Response 200 (Some (JArr [btc_coin]))) (Response 404 None) (\<lambda>p. None)) btc_coin =
     Inr (''BTCUSDT'', JStr ''Bitcoin'', ''Spot'', JStr ''img.png'') \<and>
   cryptocurrencies (pending (start stale_db)) ''BTCUSDT'' =
     Some \<lparr>name = JStr ''Bitcoin (old)'', market_type = ''Margin'', image_url = JNull, active = False\<rparr> \<and>
   refuses_asset (plain_env (Response 200 (Some (JArr [btc_coin]))) (Response 404 None) (\<lambda>p. None))
       (''BTCUSDT'', JStr ''Bitcoin'', ''Spot'', JStr ''img.png'') = None \<and>
   reconcile (plain_env (Response 200 (Some (JArr [btc_coin]))) (Response 404 None) (\<lambda>p. None))
       [btc_coin] (start stale_db) =
     Inr ((start stale_db)\<lparr>pending := stale_db\<lparr>cryptocurrencies :=
             [''BTCUSDT'' \<mapsto> \<lparr>name = JStr ''Bitcoin'', market_type = ''Margin'',
                               image_url = JStr ''img.png'', active = True\<rparr>]\<rparr>,
           symbols := [''BTCUSDT'']\<rparr>)"
proof -
  let ?E = "plain_env (Response 200 (Some (JArr [btc_coin]))) (Response 404 None) (\<lambda>p. None)"
  have h1: "asset_params ?E btc_coin = Inr (''BTCUSDT'', JStr ''Bitcoin'', ''Spot'', JStr ''img.png'')"
    by (simp add: plain_env_def btc_coin_def asset_params_def binance_symbol_def ascii_upper_def
        upper_char_def)
  have h2: "cryptocurrencies (pending (start stale_db)) ''BTCUSDT'' =
     Some \<lparr>name = JStr ''Bitcoin (old)'', market_type = ''Margin'', image_url = JNull, active = False\<rparr>"
    by (simp add: start_def stale_db_def)
  have h3: "refuses_asset ?E (''BTCUSDT'', JStr ''Bitcoin'', ''Spot'', JStr ''img.png'') = None"
    by (simp add: plain_env_def)
  from reconcile_existing_symbol [OF h1 h2 h3] h1 h2 h3 show ?thesis
    by (simp add: start_def stale_db_def)
qed

subsection \<open>The order of the batch\<close>






subsection \<open>Counting what an import writes\<close>

lemma duplicates_cong:
  "set seen = set seen' \<Longrightarrow> duplicates seen ks = duplicates seen' ks"
proof (induction ks arbitrary: seen seen')
  case Nil
  show ?case by simp
next
  case (Cons k ks)
  from Cons.prems have "set (k # seen) = set (k # seen')" by simp
  from Cons.IH [OF this] Cons.prems show ?case by simp
qed

lemma import_candles_count:
  "import_candles E symb tf cs s = Inr t \<Longrightarrow>
     length (price_history (pending t)) +
       duplicates (map candle_key (price_history (pending s)))
         (map (\<lambda>c. candle_key (projr (candle_values E symb tf c))) cs) =
     length (price_history (pending s)) + length cs"
proof (induction cs arbitrary: s)
  case Nil
  then show ?case by simp
next
  case (Cons c cs)
  from Cons.prems obtain r s1 where r: "candle_values E symb tf c = Inr r"
    and s1: "execute_insert E r s = Inr s1" and rest: "import_candles E symb tf cs s1 = Inr t"
    by (auto split: sum.splits)
  let ?K = "map candle_key (price_history (pending s))"
  let ?ks = "map (\<lambda>c. candle_key (projr (candle_values E symb tf c))) cs"
  from execute_insert_Inr [OF s1] have
    p1: "price_history (pending s1) = insert_or_ignore r (price_history (pending s))" by simp
  note IH = Cons.IH [OF rest]
  show ?case
  proof (cases "candle_key r \<in> set ?K")
    case True
    then have same: "price_history (pending s1) = price_history (pending s)"
      by (simp add: p1 insert_or_ignore_def)
    have "set (candle_key r # ?K) = set ?K" using True by auto
    from duplicates_cong [OF this] have "duplicates (candle_key r # ?K) ?ks = duplicates ?K ?ks" .
    with IH same True r show ?thesis by simp
  next
    case False
    then have more: "price_history (pending s1) = price_history (pending s) @ [r]"
      by (simp add: p1 insert_or_ignore_def)
    have "set (candle_key r # ?K) = set (map candle_key (price_history (pending s1)))"
      by (simp add: more)
    from duplicates_cong [OF this]
    have "duplicates (candle_key r # ?K) ?ks =
            duplicates (map candle_key (price_history (pending s1))) ?ks" .
    with IH more False r show ?thesis by simp
  qed
qed

text \<open>
  Claim C9 fails on the code: the import of a pair returns no value and reports no count.
  Below, the provider answers the same request once with two different candles and once
  with the same candle twice. Two rows are written in the first case and one in the
  second, and apart from the table the two resulting program states, printed output
  included, are the same.
\<close>

theorem import_reports_no_counts_counterexample:
  "(final (import_history
       (plain_env (Response 200 (Some (JArr []))) (Response 200 (Some (JArr [candle_a, candle_b]))) (\<lambda>p. None))
       ''BTCUSDT'' (''1h'', ''1h'') (start empty_db)))\<lparr>pending := empty_db\<rparr> =
   (final (import_history
       (plain_env (Response 200 (Some (JArr []))) (Response 200 (Some (JArr [candle_a, candle_a]))) (\<lambda>p. None))
       ''BTCUSDT'' (''1h'', ''1h'') (start empty_db)))\<lparr>pending := empty_db\<rparr> \<and>
   length (price_history (pending (final (import_history
       (plain_env (Response 200 (Some (JArr []))) (Response 200 (Some (JArr [candle_a, candle_b]))) (\<lambda>p. None))
       ''BTCUSDT'' (''1h'', ''1h'') (start empty_db))))) = 2 \<and>
   length (price_history (pending (final (import_history
       (plain_env (Response 200 (Some (JArr []))) (Response 200 (Some (JArr [candle_a, candle_a]))) (\<lambda>p. None))
       ''BTCUSDT'' (''1h'', ''1h'') (start empty_db))))) = 1"
  by (simp add: plain_env_def empty_db_def candle_a_def candle_b_def eval_defs)

text \<open>
  Claim C9 as amended. The import of a pair prints its progress line and nothing else.
  The number of rows it adds to the table is the number of candles it attempts less the
  number of duplicates it skips.
\<close>

theorem import_history_written_count:
  assumes "import_history E symb tf s = Inr t"
  shows "length (price_history (pending t)) +
           duplicates (map candle_key (price_history (pending s)))
             (map (\<lambda>c. candle_key (projr (candle_values E symb (fst tf) c))) (candles_of E symb tf s)) =
         length (price_history (pending s)) + length (candles_of E symb tf s) \<and>
         stdout t = stdout s @ [Importando symb (fst tf)]"
proof -
  let ?s1 = "s\<lparr>stdout := stdout s @ [Importando symb (fst tf)]\<rparr>"
  from assms obtain j s2 cs where
    f: "fetch_binance_candles E symb (snd tf) 200 ?s1 = Inr (j, s2)"
    and i: "iter j = Inr cs" and c: "import_candles E symb (fst tf) cs s2 = Inr t"
    by (auto simp: import_history_def split: sum.splits)
  have "requests s = requests ?s1" by simp
  from fetch_cong [OF this f] i have cs: "candles_of E symb tf s = cs"
    by (simp add: candles_of_def)
  from fetch_Inr [OF f] have s2: "pending s2 = pending s" "stdout s2 = stdout s @ [Importando symb (fst tf)]"
    by simp_all
  from import_candles_count [OF c] import_candles_frame [OF c] s2 cs show ?thesis by simp
qed

theorem import_history_written_count_witness:
  "import_history
       (plain_env (Response 200 (Some (JArr []))) (Response 200 (Some (JArr [candle_a, candle_a]))) (\<lambda>p. None))
       ''BTCUSDT'' (''1h'', ''1h'') (start empty_db) =
     Inr (final (import_history
       (plain_env (Response 200 (Some (JArr []))) (Response 200 (Some (JArr [candle_a, candle_a]))) (\<lambda>p. None))
       ''BTCUSDT'' (''1h'', ''1h'') (start empty_db))) \<and>
   length (price_history (pending (final (import_history
       (plain_env (Response 200 (Some (JArr []))) (Response 200 (Some (JArr [candle_a, candle_a]))) (\<lambda>p. None))
       ''BTCUSDT'' (''1h'', ''1h'') (start empty_db))))) + 1 = 0 + 2 \<and>
   stdout (final (import_history
       (plain_env (Response 200 (Some (JArr []))) (Response 200 (Some (JArr [candle_a, candle_a]))) (\<lambda>p. None))
       ''BTCUSDT'' (''1h'', ''1h'') (start empty_db))) = [Importando ''BTCUSDT'' ''1h'']"
proof -
  let ?E = "plain_env (Response 200 (Some (JArr []))) (Response 200 (Some (JArr [candle_a, candle_a]))) (\<lambda>p. None)"
  let ?s = "start (empty_db :: (json, json) db)"
  have h: "import_history ?E ''BTCUSDT'' (''1h'', ''1h'') ?s =
             Inr (final (import_history ?E ''BTCUSDT'' (''1h'', ''1h'') ?s))"
    by (simp add: plain_env_def empty_db_def candle_a_def eval_defs)
  have cs: "candles_of ?E ''BTCUSDT'' (''1h'', ''1h'') ?s = [candle_a, candle_a]"
    by (simp add: candles_of_def plain_env_def fetch_binance_candles_def)
  have k: "candle_key (projr (candle_values ?E ''BTCUSDT'' ''1h'' candle_a)) =
             (''BTCUSDT'', ''1h'', JInt 1700000000000)"
    by (simp add: plain_env_def candle_a_def candle_values_def float_field_def candle_key_def)
  have p: "price_history (pending ?s) = []" by (simp add: start_def empty_db_def)
  have o: "stdout ?s = []" by (simp add: start_def)
  from import_history_written_count [OF h, unfolded cs p o] h show ?thesis
    by (simp add: k)
qed

end
